theory Spec2Isabelle
  imports Complex_Main
begin

section \<open>JavaScript numbers\<close>

text \<open>
  The statistics of the charts are computed on JavaScript numbers. A number is modelled
  as a real, or one of the three special values of IEEE 754 that the code can produce
  (a division by zero) or receive (a CSV cell that does not parse, or that reads
  \<^verbatim>\<open>Infinity\<close>). Arithmetic on finite values is exact: rounding, overflow and
  underflow of binary64 are not modelled, and neither is the sign of zero
  (\<open>Fin 0\<close> stands for both zeros and divides like \<open>+0\<close>). The special values follow
  IEEE 754: \<open>NaN\<close> is absorbing, \<open>Infinity - Infinity\<close>,
  \<open>0 * Infinity\<close>, \<open>0 / 0\<close> and \<open>Infinity / Infinity\<close> are \<open>NaN\<close>, and every
  comparison with \<open>NaN\<close> is false.
\<close>

datatype number = NaN | PInf | NInf | Fin real

instantiation number :: "{plus, minus, times, inverse, ord}"
begin

fun plus_number :: "number \<Rightarrow> number \<Rightarrow> number" where
  "plus_number (Fin a) (Fin b) = Fin (a + b)"
| "plus_number NaN _ = NaN"
| "plus_number _ NaN = NaN"
| "plus_number PInf NInf = NaN"
| "plus_number NInf PInf = NaN"
| "plus_number PInf _ = PInf"
| "plus_number _ PInf = PInf"
| "plus_number NInf _ = NInf"
| "plus_number _ NInf = NInf"

fun minus_number :: "number \<Rightarrow> number \<Rightarrow> number" where
  "minus_number (Fin a) (Fin b) = Fin (a - b)"
| "minus_number NaN _ = NaN"
| "minus_number _ NaN = NaN"
| "minus_number PInf PInf = NaN"
| "minus_number NInf NInf = NaN"
| "minus_number PInf _ = PInf"
| "minus_number _ PInf = NInf"
| "minus_number NInf _ = NInf"
| "minus_number _ NInf = PInf"

fun times_number :: "number \<Rightarrow> number \<Rightarrow> number" where
  "times_number (Fin a) (Fin b) = Fin (a * b)"
| "times_number NaN _ = NaN"
| "times_number _ NaN = NaN"
| "times_number PInf PInf = PInf"
| "times_number PInf NInf = NInf"
| "times_number NInf PInf = NInf"
| "times_number NInf NInf = PInf"
| "times_number PInf (Fin b) = (if b = 0 then NaN else if 0 < b then PInf else NInf)"
| "times_number NInf (Fin b) = (if b = 0 then NaN else if 0 < b then NInf else PInf)"
| "times_number (Fin a) PInf = (if a = 0 then NaN else if 0 < a then PInf else NInf)"
| "times_number (Fin a) NInf = (if a = 0 then NaN else if 0 < a then NInf else PInf)"

fun divide_number :: "number \<Rightarrow> number \<Rightarrow> number" where
  "divide_number (Fin a) (Fin b) =
     (if b = 0 then (if a = 0 then NaN else if 0 < a then PInf else NInf)
      else Fin (a / b))"
| "divide_number NaN _ = NaN"
| "divide_number _ NaN = NaN"
| "divide_number PInf (Fin b) = (if 0 \<le> b then PInf else NInf)"
| "divide_number NInf (Fin b) = (if 0 \<le> b then NInf else PInf)"
| "divide_number (Fin a) _ = Fin 0"
| "divide_number _ _ = NaN"

text \<open>The type class of \<open>(/)\<close> asks for the reciprocal as well.\<close>

definition inverse_number :: "number \<Rightarrow> number" where
  "inverse_number v = divide (Fin 1) v"

fun less_eq_number :: "number \<Rightarrow> number \<Rightarrow> bool" where
  "less_eq_number (Fin a) (Fin b) = (a \<le> b)"
| "less_eq_number NaN _ = False"
| "less_eq_number _ NaN = False"
| "less_eq_number NInf _ = True"
| "less_eq_number _ PInf = True"
| "less_eq_number PInf _ = False"
| "less_eq_number _ NInf = False"

fun less_number :: "number \<Rightarrow> number \<Rightarrow> bool" where
  "less_number (Fin a) (Fin b) = (a < b)"
| "less_number NaN _ = False"
| "less_number _ NaN = False"
| "less_number PInf _ = False"
| "less_number _ NInf = False"
| "less_number NInf _ = True"
| "less_number _ PInf = True"

instance ..

end

text \<open>\<^verbatim>\<open>isNaN(v)\<close>, and the truthiness that \<^verbatim>\<open>if (v)\<close> and \<^verbatim>\<open>v || 0\<close> test:
  a number is falsy when it is \<open>NaN\<close> or zero.\<close>

fun isNaN :: "number \<Rightarrow> bool" where
  "isNaN NaN = True"
| "isNaN _ = False"

fun truthy :: "number \<Rightarrow> bool" where
  "truthy NaN = False"
| "truthy (Fin a) = (a \<noteq> 0)"
| "truthy _ = True"

text \<open>\<^verbatim>\<open>Math.sqrt(v)\<close>, \<^verbatim>\<open>Math.pow(v, 2)\<close>, \<^verbatim>\<open>Math.floor(v)\<close> and
  \<^verbatim>\<open>Math.ceil(v)\<close>.\<close>

fun Math_sqrt :: "number \<Rightarrow> number" where
  "Math_sqrt (Fin a) = (if a < 0 then NaN else Fin (sqrt a))"
| "Math_sqrt PInf = PInf"
| "Math_sqrt _ = NaN"

fun Math_pow2 :: "number \<Rightarrow> number" where
  "Math_pow2 (Fin a) = Fin (a\<^sup>2)"
| "Math_pow2 NaN = NaN"
| "Math_pow2 _ = PInf"

fun Math_floor :: "number \<Rightarrow> number" where
  "Math_floor (Fin a) = Fin (of_int \<lfloor>a\<rfloor>)"
| "Math_floor v = v"

fun Math_ceil :: "number \<Rightarrow> number" where
  "Math_ceil (Fin a) = Fin (of_int \<lceil>a\<rceil>)"
| "Math_ceil v = v"

section \<open>The functions of d3-array the charts call\<close>

text \<open>
  The repository uses D3 version 7. \<^verbatim>\<open>d3.sum(values, f)\<close> starts at 0 and adds every \<^verbatim>\<open>f(value)\<close> that is truthy, in
  order: a term that is \<open>NaN\<close> (or zero) is skipped. The argument here is the list of
  the \<^verbatim>\<open>f(value)\<close>.
\<close>

definition d3_sum :: "number list \<Rightarrow> number" where
  "d3_sum vs = foldl (\<lambda>s v. if truthy v then s + v else s) (Fin 0) vs"

text \<open>
  \<^verbatim>\<open>d3.mean(values, f)\<close> counts and adds the values with \<^verbatim>\<open>value >= value\<close> (all but
  \<open>NaN\<close>) and returns \<^verbatim>\<open>sum / count\<close>, or \<^verbatim>\<open>undefined\<close> (here \<open>None\<close>) when it
  counted nothing. The callers write \<^verbatim>\<open>d3.mean(...) || 0\<close>.
\<close>

definition d3_mean :: "number list \<Rightarrow> number option" where
  "d3_mean vs =
     (let (count, s) =
        foldl (\<lambda>(count, s) v. if v \<ge> v then (count + 1, s + v) else (count, s))
          (0 :: nat, Fin 0) vs
      in if count \<noteq> 0 then Some (s / Fin (real count)) else None)"

fun or0 :: "number option \<Rightarrow> number" where
  "or0 None = Fin 0"
| "or0 (Some v) = (if truthy v then v else Fin 0)"

text \<open>
  \<^verbatim>\<open>d3.extent(values)\<close> returns \<^verbatim>\<open>[min, max]\<close>, both \<^verbatim>\<open>undefined\<close> (here \<open>None\<close>)
  until the first value with \<^verbatim>\<open>value >= value\<close> is seen.
\<close>

fun extent_step :: "(number \<times> number) option \<Rightarrow> number \<Rightarrow> (number \<times> number) option" where
  "extent_step None v = (if v \<ge> v then Some (v, v) else None)"
| "extent_step (Some (mn, mx)) v =
     Some (if mn > v then v else mn, if mx < v then v else mx)"

definition d3_extent :: "number list \<Rightarrow> (number \<times> number) option" where
  "d3_extent vs = foldl extent_step None vs"

section \<open>Pearson correlation\<close>

text \<open>
  \<^verbatim>\<open>CorrelationMatrix.calculateCorrelation(x, y)\<close> (correlationMatrix.ts): the first
  \<open>min (length x) (length y)\<close> entries are paired by index, the pairs with a \<open>NaN\<close> are
  dropped, and the coefficient is computed on the rest. A pair \<^verbatim>\<open>{x: xi, y: y[i]}\<close> is a
  HOL pair.
\<close>

definition CorrelationMatrix_calculateCorrelation :: "number list \<Rightarrow> number list \<Rightarrow> number" where
  "CorrelationMatrix_calculateCorrelation x y =
     (let n = min (length x) (length y);
          pairedData = filter (\<lambda>d. \<not> isNaN (fst d) \<and> \<not> isNaN (snd d)) (zip (take n x) y)
      in if length pairedData < 2 then Fin 0
         else
           let meanX = or0 (d3_mean (map fst pairedData));
               meanY = or0 (d3_mean (map snd pairedData));
               numerator = d3_sum (map (\<lambda>d. (fst d - meanX) * (snd d - meanY)) pairedData);
               denomX = Math_sqrt (d3_sum (map (\<lambda>d. Math_pow2 (fst d - meanX)) pairedData));
               denomY = Math_sqrt (d3_sum (map (\<lambda>d. Math_pow2 (snd d - meanY)) pairedData))
           in if denomX = Fin 0 \<or> denomY = Fin 0 then Fin 0
              else numerator / (denomX * denomY))"

text \<open>
  \<^verbatim>\<open>CategoryHeatmap.calculateCorrelation(x, y)\<close> (categoryHeatmap.ts): the means and
  the sums run over the whole of each array. \<^verbatim>\<open>y[i]\<close> beyond the end of \<^verbatim>\<open>y\<close> is
  \<^verbatim>\<open>undefined\<close>, which the subtraction turns into \<open>NaN\<close>.
\<close>

definition elem :: "number list \<Rightarrow> nat \<Rightarrow> number" where
  "elem vs i = (if i < length vs then vs ! i else NaN)"

definition CategoryHeatmap_calculateCorrelation :: "number list \<Rightarrow> number list \<Rightarrow> number" where
  "CategoryHeatmap_calculateCorrelation x y =
     (let n = min (length x) (length y)
      in if n < 2 then Fin 0
         else
           let meanX = or0 (d3_mean x);
               meanY = or0 (d3_mean y);
               numerator =
                 d3_sum (map (\<lambda>(xi, i). (xi - meanX) * (elem y i - meanY)) (zip x [0..<length x]));
               denomX = Math_sqrt (d3_sum (map (\<lambda>xi. Math_pow2 (xi - meanX)) x));
               denomY = Math_sqrt (d3_sum (map (\<lambda>yi. Math_pow2 (yi - meanY)) y))
           in if denomX = Fin 0 \<or> denomY = Fin 0 then Fin 0
              else numerator / (denomX * denomY))"

subsection \<open>The correlation matrix\<close>

text \<open>
  \<^verbatim>\<open>CorrelationMatrix.initializeData()\<close>. A row of the CSV file is read through
  \<^verbatim>\<open>+d[variable]\<close> only, so a row is the function from a column name to that number
  (\<open>NaN\<close> for a column the row lacks and for a cell that is no number; how the text of
  a cell is parsed is not modelled). The argument is the loaded
  rows, or \<open>None\<close> when \<^verbatim>\<open>d3.csv\<close> fails and the \<^verbatim>\<open>catch\<close> branch runs. The result
  is \<^verbatim>\<open>this.variables\<close> and \<^verbatim>\<open>this.correlationMatrix\<close>.
\<close>

type_synonym row = "string \<Rightarrow> number"

definition initializeData :: "row list option \<Rightarrow> string list \<times> number list list" where
  "initializeData csv =
     (case csv of
        None \<Rightarrow> ([''Error''], [[Fin 0]])
      | Some csvData \<Rightarrow>
          let variables =
                [''Sleep Duration'', ''Quality of Sleep'', ''Physical Activity Level'',
                 ''Stress Level'', ''Heart Rate'', ''Daily Steps''];
              numericData =
                (\<lambda>variable. filter (\<lambda>v. \<not> isNaN v) (map (\<lambda>d. d variable) csvData))
          in (variables,
              map (\<lambda>i. map (\<lambda>j. CorrelationMatrix_calculateCorrelation
                                  (numericData (variables ! i)) (numericData (variables ! j)))
                          [0..<length variables])
                [0..<length variables]))"

section \<open>Binary64 arithmetic\<close>

text \<open>
  JavaScript computes in IEEE 754 binary64: every operation on finite numbers returns
  the exact result rounded to the nearest representable number, ties to the even
  significand, and \<open>Infinity\<close> when the rounded magnitude reaches \<open>2^1024\<close>.
  \<open>round64\<close> is that rounding: \<open>e\<close> is the exponent of the binade of \<open>r\<close> (at
  least \<open>-1022\<close>, where the subnormal numbers start) and \<open>u\<close> the distance between
  neighbouring numbers there. The sign of a zero result is not kept.
\<close>

definition round_half_even :: "real \<Rightarrow> int" where
  "round_half_even q =
     (let f = \<lfloor>q\<rfloor>; d = q - of_int f
      in if d < 1 / 2 then f else if 1 / 2 < d then f + 1 else if even f then f else f + 1)"

definition round64 :: "real \<Rightarrow> number" where
  "round64 r =
     (if r = 0 then Fin 0
      else
        let e = max \<lfloor>log 2 \<bar>r\<bar>\<rfloor> (- 1022);
            u = 2 powi (e - 52);
            m = of_int (round_half_even (\<bar>r\<bar> / u)) * u
        in if 2 ^ 1024 \<le> m then (if 0 < r then PInf else NInf) else Fin (sgn r * m))"

text \<open>
  The operations with the rounding \<open>rnd\<close> of a finite result as a parameter: \<open>round64\<close>
  gives the arithmetic of the running code, \<open>Fin\<close> the exact arithmetic of the
  operators \<open>+\<close>, \<open>-\<close>, \<open>*\<close>, \<open>/\<close> above, and the special values behave the same under
  every rounding. \<^verbatim>\<open>Math.pow(v, 2)\<close> is \<^verbatim>\<open>v * v\<close>, as in the fdlibm \<^verbatim>\<open>pow\<close> that V8 and
  SpiderMonkey use.
\<close>

definition fadd :: "(real \<Rightarrow> number) \<Rightarrow> number \<Rightarrow> number \<Rightarrow> number" where
  "fadd rnd a b = (case (a, b) of (Fin r, Fin s) \<Rightarrow> rnd (r + s) | _ \<Rightarrow> a + b)"

definition fsub :: "(real \<Rightarrow> number) \<Rightarrow> number \<Rightarrow> number \<Rightarrow> number" where
  "fsub rnd a b = (case (a, b) of (Fin r, Fin s) \<Rightarrow> rnd (r - s) | _ \<Rightarrow> a - b)"

definition fmul :: "(real \<Rightarrow> number) \<Rightarrow> number \<Rightarrow> number \<Rightarrow> number" where
  "fmul rnd a b = (case (a, b) of (Fin r, Fin s) \<Rightarrow> rnd (r * s) | _ \<Rightarrow> a * b)"

definition fdiv :: "(real \<Rightarrow> number) \<Rightarrow> number \<Rightarrow> number \<Rightarrow> number" where
  "fdiv rnd a b =
     (case (a, b) of (Fin r, Fin s) \<Rightarrow> if s = 0 then a / b else rnd (r / s) | _ \<Rightarrow> a / b)"

definition fsqrt :: "(real \<Rightarrow> number) \<Rightarrow> number \<Rightarrow> number" where
  "fsqrt rnd v = (case v of Fin r \<Rightarrow> if r < 0 then NaN else rnd (sqrt r) | _ \<Rightarrow> Math_sqrt v)"

definition fpow2 :: "(real \<Rightarrow> number) \<Rightarrow> number \<Rightarrow> number" where
  "fpow2 rnd v = fmul rnd v v"

text \<open>\<^verbatim>\<open>d3.sum\<close> and \<^verbatim>\<open>d3.mean\<close> in that arithmetic.\<close>

definition d3_sum_r :: "(real \<Rightarrow> number) \<Rightarrow> number list \<Rightarrow> number" where
  "d3_sum_r rnd vs = foldl (\<lambda>s v. if truthy v then fadd rnd s v else s) (Fin 0) vs"

definition d3_mean_r :: "(real \<Rightarrow> number) \<Rightarrow> number list \<Rightarrow> number option" where
  "d3_mean_r rnd vs =
     (let (count, s) =
        foldl (\<lambda>(count, s) v. if v \<ge> v then (count + 1, fadd rnd s v) else (count, s))
          (0 :: nat, Fin 0) vs
      in if count \<noteq> 0 then Some (fdiv rnd s (Fin (real count))) else None)"

text \<open>
  \<^verbatim>\<open>CorrelationMatrix.calculateCorrelation(x, y)\<close> and
  \<^verbatim>\<open>CorrelationMatrix.initializeData()\<close> once more, line by line as above, in the
  arithmetic with rounding \<open>rnd\<close>.
\<close>

definition CorrelationMatrix_calculateCorrelation_r ::
    "(real \<Rightarrow> number) \<Rightarrow> number list \<Rightarrow> number list \<Rightarrow> number" where
  "CorrelationMatrix_calculateCorrelation_r rnd x y =
     (let n = min (length x) (length y);
          pairedData = filter (\<lambda>d. \<not> isNaN (fst d) \<and> \<not> isNaN (snd d)) (zip (take n x) y)
      in if length pairedData < 2 then Fin 0
         else
           let meanX = or0 (d3_mean_r rnd (map fst pairedData));
               meanY = or0 (d3_mean_r rnd (map snd pairedData));
               numerator =
                 d3_sum_r rnd
                   (map (\<lambda>d. fmul rnd (fsub rnd (fst d) meanX) (fsub rnd (snd d) meanY)) pairedData);
               denomX =
                 fsqrt rnd (d3_sum_r rnd (map (\<lambda>d. fpow2 rnd (fsub rnd (fst d) meanX)) pairedData));
               denomY =
                 fsqrt rnd (d3_sum_r rnd (map (\<lambda>d. fpow2 rnd (fsub rnd (snd d) meanY)) pairedData))
           in if denomX = Fin 0 \<or> denomY = Fin 0 then Fin 0
              else fdiv rnd numerator (fmul rnd denomX denomY))"

definition initializeData_r ::
    "(real \<Rightarrow> number) \<Rightarrow> row list option \<Rightarrow> string list \<times> number list list" where
  "initializeData_r rnd csv =
     (case csv of
        None \<Rightarrow> ([''Error''], [[Fin 0]])
      | Some csvData \<Rightarrow>
          let variables =
                [''Sleep Duration'', ''Quality of Sleep'', ''Physical Activity Level'',
                 ''Stress Level'', ''Heart Rate'', ''Daily Steps''];
              numericData =
                (\<lambda>variable. filter (\<lambda>v. \<not> isNaN v) (map (\<lambda>d. d variable) csvData))
          in (variables,
              map (\<lambda>i. map (\<lambda>j. CorrelationMatrix_calculateCorrelation_r rnd
                                  (numericData (variables ! i)) (numericData (variables ! j)))
                          [0..<length variables])
                [0..<length variables]))"

section \<open>Equal-width bins of the category heatmap\<close>

text \<open>
  \<^verbatim>\<open>v.toFixed(1)\<close>: the sign, then the integer \<open>n\<close> with \<open>n / 10\<close> closest to the
  magnitude (the larger one on a tie), written with one digit after the point. From
  \<open>10^21\<close> on ECMAScript writes the magnitude with \<^verbatim>\<open>Number::toString\<close> instead, whose
  digits depend on the binary64 value: that function is the parameter \<open>ToString\<close>.
\<close>

definition digit :: "nat \<Rightarrow> char" where
  "digit n = ''0123456789'' ! n"

fun nat_digits :: "nat \<Rightarrow> string" where
  "nat_digits n = (if n < 10 then [digit n] else nat_digits (n div 10) @ [digit (n mod 10)])"

fun toFixed1 :: "(real \<Rightarrow> string) \<Rightarrow> number \<Rightarrow> string" where
  "toFixed1 ToString (Fin a) =
     (let s = (if a < 0 then ''-'' else []);
          r = \<bar>a\<bar>;
          m = (if r \<ge> 10 ^ 21 then ToString r
               else let n = nat \<lfloor>r * 10 + 1 / 2\<rfloor>
                    in nat_digits (n div 10) @ ''.'' @ [digit (n mod 10)])
      in s @ m)"
| "toFixed1 ToString NaN = ''NaN''"
| "toFixed1 ToString PInf = ''Infinity''"
| "toFixed1 ToString NInf = ''-Infinity''"

text \<open>A bin \<^verbatim>\<open>{min, max, label}\<close>; the primes keep the fields apart from HOL's
  \<open>min\<close> and \<open>max\<close>.\<close>

record Bin =
  min' :: number
  max' :: number
  label :: string

text \<open>
  \<^verbatim>\<open>CategoryHeatmap.createBins(values, numBins)\<close>. \<^verbatim>\<open>Math.floor(undefined)\<close> is
  \<open>NaN\<close>, which is what an extent without values gives. The bounds \<^verbatim>\<open>min\<close> and
  \<^verbatim>\<open>max\<close> of a bin are \<open>mn\<close> and \<open>mx\<close> here, and \<open>numBins\<close> is a natural number
  (the only call takes the default 6).
\<close>

definition createBins :: "(real \<Rightarrow> string) \<Rightarrow> number list \<Rightarrow> nat \<Rightarrow> Bin list" where
  "createBins ToString vs numBins =
     (let extent = d3_extent vs;
          globalMin = (case extent of None \<Rightarrow> NaN | Some (mn, mx) \<Rightarrow> Math_floor mn);
          globalMax = (case extent of None \<Rightarrow> NaN | Some (mn, mx) \<Rightarrow> Math_ceil mx);
          binSize = (globalMax - globalMin) / Fin (real numBins)
      in map (\<lambda>i.
                let mn = globalMin + Fin (real i) * binSize;
                    mx = globalMin + Fin (real (i + 1)) * binSize
                in \<lparr>min' = mn, max' = mx,
                    label = toFixed1 ToString mn @ ''-'' @ toFixed1 ToString mx\<rparr>)
           [0..<numBins])"

text \<open>An entry of \<^verbatim>\<open>this.heatmapData\<close>.\<close>

record HeatmapData =
  category1Value :: number
  category2Value :: number
  category1Bin :: string
  category2Bin :: string
  count :: nat
  correlation :: number

text \<open>
  \<^verbatim>\<open>CategoryHeatmap.processData()\<close>, from \<^verbatim>\<open>this.category1\<close>, \<^verbatim>\<open>this.category2\<close> and
  \<^verbatim>\<open>this.data\<close> to the new \<^verbatim>\<open>this.heatmapData\<close>. A row is read through the numbers
  of its fields, as above; the bins are made with the default \<^verbatim>\<open>numBins = 6\<close>.
\<close>

definition processData :: "(real \<Rightarrow> string) \<Rightarrow> string \<Rightarrow> string \<Rightarrow> row list \<Rightarrow> HeatmapData list" where
  "processData ToString category1 category2 data =
     (if category1 = [] \<or> category2 = [] \<or> length data = 0 then []
      else
        let validData = filter (\<lambda>d. \<not> isNaN (d category1) \<and> \<not> isNaN (d category2)) data;
            category1Values = map (\<lambda>d. d category1) validData;
            category2Values = map (\<lambda>d. d category2) validData;
            category1Bins = createBins ToString category1Values 6;
            category2Bins = createBins ToString category2Values 6
        in concat (map (\<lambda>bin1. map (\<lambda>bin2.
             let pointsInBin =
                   filter (\<lambda>d. let val1 = d category1; val2 = d category2
                               in val1 \<ge> min' bin1 \<and> val1 < max' bin1 \<and>
                                  val2 \<ge> min' bin2 \<and> val2 < max' bin2) validData
             in if length pointsInBin > 0
                then \<lparr>category1Value = or0 (d3_mean (map (\<lambda>d. d category1) pointsInBin)),
                      category2Value = or0 (d3_mean (map (\<lambda>d. d category2) pointsInBin)),
                      category1Bin = label bin1,
                      category2Bin = label bin2,
                      count = length pointsInBin,
                      correlation =
                        CategoryHeatmap_calculateCorrelation
                          (map (\<lambda>d. d category1) pointsInBin)
                          (map (\<lambda>d. d category2) pointsInBin)\<rparr>
                else \<lparr>category1Value = (min' bin1 + max' bin1) / Fin 2,
                      category2Value = (min' bin2 + max' bin2) / Fin 2,
                      category1Bin = label bin1,
                      category2Bin = label bin2,
                      count = 0,
                      correlation = Fin 0\<rparr>) category2Bins) category1Bins))"

section \<open>The scatter plot: correlation and regression line\<close>

text \<open>
  A point \<^verbatim>\<open>{x, y, label?}\<close> of \<^verbatim>\<open>this.data\<close> (scatterPlot.ts); no statistic reads
  the label. \<^verbatim>\<open>loadData\<close> keeps the points with neither coordinate \<open>NaN\<close>.
\<close>

record ScatterData =
  x :: number
  y :: number

definition ScatterPlot_calculateCorrelation :: "ScatterData list \<Rightarrow> number" where
  "ScatterPlot_calculateCorrelation data =
     (if length data < 2 then Fin 0
      else
        let meanX = or0 (d3_mean (map (\<lambda>d. x d) data));
            meanY = or0 (d3_mean (map (\<lambda>d. y d) data));
            numerator = d3_sum (map (\<lambda>d. (x d - meanX) * (y d - meanY)) data);
            denomX = Math_sqrt (d3_sum (map (\<lambda>d. Math_pow2 (x d - meanX)) data));
            denomY = Math_sqrt (d3_sum (map (\<lambda>d. Math_pow2 (y d - meanY)) data))
        in if denomX = Fin 0 \<or> denomY = Fin 0 then Fin 0
           else numerator / (denomX * denomY))"

record Regression =
  slope :: number
  intercept :: number
  r2 :: number

definition ScatterPlot_calculateLinearRegression :: "ScatterData list \<Rightarrow> Regression" where
  "ScatterPlot_calculateLinearRegression data =
     (if length data < 2 then \<lparr>slope = Fin 0, intercept = Fin 0, r2 = Fin 0\<rparr>
      else
        let n = Fin (real (length data));
            sumX = d3_sum (map (\<lambda>d. x d) data);
            sumY = d3_sum (map (\<lambda>d. y d) data);
            sumXY = d3_sum (map (\<lambda>d. x d * y d) data);
            sumX2 = d3_sum (map (\<lambda>d. x d * x d) data);
            sumY2 = d3_sum (map (\<lambda>d. y d * y d) data);
            slope = (n * sumXY - sumX * sumY) / (n * sumX2 - sumX * sumX);
            intercept = (sumY - slope * sumX) / n;
            meanY = sumY / n;
            totalSumSquares = d3_sum (map (\<lambda>d. Math_pow2 (y d - meanY)) data);
            residualSumSquares =
              d3_sum (map (\<lambda>d. Math_pow2 (y d - (slope * x d + intercept))) data);
            r2 = Fin 1 - (residualSumSquares / totalSumSquares)
        in \<lparr>slope = slope, intercept = intercept, r2 = r2\<rparr>)"

text \<open>
  \<^verbatim>\<open>ScatterPlot.calculateCorrelation()\<close> and \<^verbatim>\<open>ScatterPlot.calculateLinearRegression()\<close>
  once more, line by line as above, in the arithmetic with rounding \<open>rnd\<close>.
\<close>

definition ScatterPlot_calculateCorrelation_r :: "(real \<Rightarrow> number) \<Rightarrow> ScatterData list \<Rightarrow> number" where
  "ScatterPlot_calculateCorrelation_r rnd data =
     (if length data < 2 then Fin 0
      else
        let meanX = or0 (d3_mean_r rnd (map (\<lambda>d. x d) data));
            meanY = or0 (d3_mean_r rnd (map (\<lambda>d. y d) data));
            numerator =
              d3_sum_r rnd (map (\<lambda>d. fmul rnd (fsub rnd (x d) meanX) (fsub rnd (y d) meanY)) data);
            denomX = fsqrt rnd (d3_sum_r rnd (map (\<lambda>d. fpow2 rnd (fsub rnd (x d) meanX)) data));
            denomY = fsqrt rnd (d3_sum_r rnd (map (\<lambda>d. fpow2 rnd (fsub rnd (y d) meanY)) data))
        in if denomX = Fin 0 \<or> denomY = Fin 0 then Fin 0
           else fdiv rnd numerator (fmul rnd denomX denomY))"

definition ScatterPlot_calculateLinearRegression_r ::
    "(real \<Rightarrow> number) \<Rightarrow> ScatterData list \<Rightarrow> Regression" where
  "ScatterPlot_calculateLinearRegression_r rnd data =
     (if length data < 2 then \<lparr>slope = Fin 0, intercept = Fin 0, r2 = Fin 0\<rparr>
      else
        let n = Fin (real (length data));
            sumX = d3_sum_r rnd (map (\<lambda>d. x d) data);
            sumY = d3_sum_r rnd (map (\<lambda>d. y d) data);
            sumXY = d3_sum_r rnd (map (\<lambda>d. fmul rnd (x d) (y d)) data);
            sumX2 = d3_sum_r rnd (map (\<lambda>d. fmul rnd (x d) (x d)) data);
            sumY2 = d3_sum_r rnd (map (\<lambda>d. fmul rnd (y d) (y d)) data);
            slope = fdiv rnd (fsub rnd (fmul rnd n sumXY) (fmul rnd sumX sumY))
                             (fsub rnd (fmul rnd n sumX2) (fmul rnd sumX sumX));
            intercept = fdiv rnd (fsub rnd sumY (fmul rnd slope sumX)) n;
            meanY = fdiv rnd sumY n;
            totalSumSquares = d3_sum_r rnd (map (\<lambda>d. fpow2 rnd (fsub rnd (y d) meanY)) data);
            residualSumSquares =
              d3_sum_r rnd
                (map (\<lambda>d. fpow2 rnd (fsub rnd (y d) (fadd rnd (fmul rnd slope (x d)) intercept))) data);
            r2 = fsub rnd (Fin 1) (fdiv rnd residualSumSquares totalSumSquares)
        in \<lparr>slope = slope, intercept = intercept, r2 = r2\<rparr>)"

section \<open>Reference definitions over the reals\<close>




definition mean :: "real list \<Rightarrow> real" where
  "mean rs = sum_list rs / real (length rs)"

text \<open>The centred sum of squares, whose square root is a denominator of the coefficient.\<close>

definition centered_ss :: "real list \<Rightarrow> real" where
  "centered_ss rs = (\<Sum>r\<leftarrow>rs. (r - mean rs)\<^sup>2)"


text \<open>The point of the scatter plot with the finite coordinates \<open>p\<close>.\<close>

definition point :: "real \<times> real \<Rightarrow> ScatterData" where
  "point p = \<lparr>x = Fin (fst p), y = Fin (snd p)\<rparr>"

text \<open>A CSV row given by its numeric cells; every other column reads \<open>NaN\<close>.\<close>

definition csv_row :: "(string \<times> number) list \<Rightarrow> row" where
  "csv_row cells = (\<lambda>k. case map_of cells k of None \<Rightarrow> NaN | Some v \<Rightarrow> v)"


text \<open>
  Names for what the correlation computes on the way: the pairs it keeps, the sum of the
  squared deviations of a variable from its mean, and the denominator made of it.
\<close>

definition pairedData :: "number list \<Rightarrow> number list \<Rightarrow> (number \<times> number) list" where
  "pairedData xs ys =
     filter (\<lambda>d. \<not> isNaN (fst d) \<and> \<not> isNaN (snd d)) (zip (take (min (length xs) (length ys)) xs) ys)"

definition squared_deviations :: "(real \<Rightarrow> number) \<Rightarrow> number list \<Rightarrow> number" where
  "squared_deviations rnd vs =
     d3_sum_r rnd (map (\<lambda>v. fpow2 rnd (fsub rnd v (or0 (d3_mean_r rnd vs)))) vs)"

definition denominator :: "(real \<Rightarrow> number) \<Rightarrow> number list \<Rightarrow> number" where
  "denominator rnd vs = fsqrt rnd (squared_deviations rnd vs)"

section \<open>The d3 sums on finite values\<close>

lemma foldl_sum_Fin:
  "foldl (\<lambda>s v. if truthy v then s + v else s) (Fin a) (map Fin rs) = Fin (a + sum_list rs)"
  by (induction rs arbitrary: a) auto

lemma d3_sum_Fin [simp]: "d3_sum (map Fin rs) = Fin (sum_list rs)"
  by (simp add: d3_sum_def foldl_sum_Fin)

lemma foldl_mean_Fin:
  "foldl (\<lambda>(count, s) v. if v \<ge> v then (count + 1, s + v) else (count, s))
     (c, Fin a) (map Fin rs) = (c + length rs, Fin (a + sum_list rs))"
  by (induction rs arbitrary: c a) auto

lemma d3_mean_Fin [simp]:
  "d3_mean (map Fin rs) = (if rs = [] then None else Some (Fin (mean rs)))"
  by (simp add: d3_mean_def foldl_mean_Fin mean_def)


section \<open>The correlation on finite samples\<close>









section \<open>Fallbacks of the correlation (C1)\<close>




section \<open>Symmetry of the correlation (C7)\<close>

lemma times_number_commute: "(a :: number) * b = b * a"
  by (cases a; cases b) (auto simp: mult.commute)

lemma zip_take_min: "zip (take (min (length xs) (length ys)) xs) ys = zip xs ys"
  by (induction xs ys rule: list_induct2') auto

lemma zip_swap: "zip ys xs = map prod.swap (zip xs ys)"
  by (induction xs ys rule: list_induct2') auto

lemma paired_swap:
  "filter (\<lambda>d. \<not> isNaN (fst d) \<and> \<not> isNaN (snd d)) (zip (take (min (length ys) (length xs)) ys) xs)
   = map prod.swap (filter (\<lambda>d. \<not> isNaN (fst d) \<and> \<not> isNaN (snd d))
        (zip (take (min (length xs) (length ys)) xs) ys))"
  unfolding zip_take_min
  by (subst zip_swap) (simp add: filter_map comp_def conj_commute)

lemma CorrelationMatrix_calculateCorrelation_commute:
  "CorrelationMatrix_calculateCorrelation xs ys = CorrelationMatrix_calculateCorrelation ys xs"
proof -
  define PD where "PD = filter (\<lambda>d. \<not> isNaN (fst d) \<and> \<not> isNaN (snd d))
        (zip (take (min (length xs) (length ys)) xs) ys)"
  have sw: "filter (\<lambda>d. \<not> isNaN (fst d) \<and> \<not> isNaN (snd d))
        (zip (take (min (length ys) (length xs)) ys) xs) = map prod.swap PD"
    unfolding PD_def by (rule paired_swap)
  have f: "map fst (map prod.swap PD) = map snd PD" and s: "map snd (map prod.swap PD) = map fst PD"
    by (simp_all add: comp_def)
  have n: "map (\<lambda>d. (fst d - a) * (snd d - b)) (map prod.swap PD)
             = map (\<lambda>d. (fst d - b) * (snd d - a)) PD" for a b
    by (simp add: comp_def times_number_commute)
  have dx: "map (\<lambda>d. Math_pow2 (fst d - a)) (map prod.swap PD) = map (\<lambda>d. Math_pow2 (snd d - a)) PD" for a
    by (simp add: comp_def)
  have dy: "map (\<lambda>d. Math_pow2 (snd d - a)) (map prod.swap PD) = map (\<lambda>d. Math_pow2 (fst d - a)) PD" for a
    by (simp add: comp_def)
  show ?thesis
    unfolding CorrelationMatrix_calculateCorrelation_def [of ys xs] sw Let_def f s n dx dy
    unfolding CorrelationMatrix_calculateCorrelation_def [of xs ys] PD_def [symmetric] Let_def
    by (simp add: times_number_commute disj_commute)
qed


lemma nth_map_upt2:
  "i < n \<Longrightarrow> j < n \<Longrightarrow> map (\<lambda>i. map (\<lambda>j. f i j) [0..<n]) [0..<n] ! i ! j = f i j"
  by simp

lemma matrix_entry:
  assumes "i < length (fst (initializeData (Some csvData)))"
    and "j < length (fst (initializeData (Some csvData)))"
  shows "snd (initializeData (Some csvData)) ! i ! j =
     CorrelationMatrix_calculateCorrelation
       (filter (\<lambda>v. \<not> isNaN v) (map (\<lambda>d. d (fst (initializeData (Some csvData)) ! i)) csvData))
       (filter (\<lambda>v. \<not> isNaN v) (map (\<lambda>d. d (fst (initializeData (Some csvData)) ! j)) csvData))"
  using assms unfolding initializeData_def Let_def option.case fst_conv snd_conv
  by (rule nth_map_upt2)

text \<open>
  Claim C7. \<^verbatim>\<open>calculateCorrelation(xs, ys)\<close> and \<^verbatim>\<open>calculateCorrelation(ys, xs)\<close> are
  the same value for all inputs (two \<open>NaN\<close> results count as the same value), and so
  entry \<open>(i, j)\<close> of the correlation matrix is entry \<open>(j, i)\<close>, although each is
  computed on its own.
\<close>

theorem correlation_symmetric:
  "CorrelationMatrix_calculateCorrelation xs ys = CorrelationMatrix_calculateCorrelation ys xs
   \<and> (i < length (fst (initializeData csv)) \<and> j < length (fst (initializeData csv))
      \<longrightarrow> snd (initializeData csv) ! i ! j = snd (initializeData csv) ! j ! i)"
proof
  show "CorrelationMatrix_calculateCorrelation xs ys = CorrelationMatrix_calculateCorrelation ys xs"
    by (rule CorrelationMatrix_calculateCorrelation_commute)
next
  show "i < length (fst (initializeData csv)) \<and> j < length (fst (initializeData csv))
      \<longrightarrow> snd (initializeData csv) ! i ! j = snd (initializeData csv) ! j ! i"
  proof (cases csv)
    case None
    then show ?thesis by (simp add: initializeData_def)
  next
    case (Some csvData)
    show ?thesis
    proof
      assume "i < length (fst (initializeData csv)) \<and> j < length (fst (initializeData csv))"
      then have ij: "i < length (fst (initializeData (Some csvData)))"
        "j < length (fst (initializeData (Some csvData)))"
        by (simp_all add: Some)
      show "snd (initializeData csv) ! i ! j = snd (initializeData csv) ! j ! i"
        unfolding Some matrix_entry [OF ij] matrix_entry [OF ij(2) ij(1)]
        by (rule CorrelationMatrix_calculateCorrelation_commute)
    qed
  qed
qed

theorem correlation_symmetric_witness:
  "0 < length (fst (initializeData (Some [csv_row [(''Sleep Duration'', Fin 6), (''Quality of Sleep'', Fin 5)],
                                          csv_row [(''Sleep Duration'', Fin 8), (''Quality of Sleep'', Fin 7)]])))
   \<and> 1 < length (fst (initializeData (Some [csv_row [(''Sleep Duration'', Fin 6), (''Quality of Sleep'', Fin 5)],
                                          csv_row [(''Sleep Duration'', Fin 8), (''Quality of Sleep'', Fin 7)]])))
   \<and> snd (initializeData (Some [csv_row [(''Sleep Duration'', Fin 6), (''Quality of Sleep'', Fin 5)],
                                 csv_row [(''Sleep Duration'', Fin 8), (''Quality of Sleep'', Fin 7)]])) ! 0 ! 1
     = snd (initializeData (Some [csv_row [(''Sleep Duration'', Fin 6), (''Quality of Sleep'', Fin 5)],
                                 csv_row [(''Sleep Duration'', Fin 8), (''Quality of Sleep'', Fin 7)]])) ! 1 ! 0
   \<and> CorrelationMatrix_calculateCorrelation [Fin 6, Fin 8] [Fin 5, NaN, Fin 7]
     = CorrelationMatrix_calculateCorrelation [Fin 5, NaN, Fin 7] [Fin 6, Fin 8]"
proof -
  have len: "length (fst (initializeData (Some csvData))) = 6" for csvData
    by (simp add: initializeData_def Let_def)
  show ?thesis
    using correlation_symmetric
      [of "[Fin 6, Fin 8]" "[Fin 5, NaN, Fin 7]" 0
          "Some [csv_row [(''Sleep Duration'', Fin 6), (''Quality of Sleep'', Fin 5)],
                 csv_row [(''Sleep Duration'', Fin 8), (''Quality of Sleep'', Fin 7)]]" 1]
    by (simp add: len)
qed

section \<open>The diagonal of the correlation matrix (C6)\<close>












section \<open>The regression line\<close>

lemma sum_list_centered:
  "(\<Sum>r\<leftarrow>rs. (r - m)\<^sup>2) = (\<Sum>r\<leftarrow>rs. r * r) - 2 * m * sum_list rs + real (length rs) * m\<^sup>2"
  by (induction rs) (auto simp: algebra_simps power2_eq_square)

lemma variance_identity:
  assumes "rs \<noteq> []"
  shows "real (length rs) * (\<Sum>r\<leftarrow>rs. r * r) - sum_list rs * sum_list rs
           = real (length rs) * centered_ss rs"
proof -
  have n: "real (length rs) \<noteq> 0" using assms by simp
  show ?thesis
    unfolding centered_ss_def sum_list_centered mean_def
    using n by (simp add: field_simps power2_eq_square)
qed

lemma map_x_point: "map (\<lambda>d. x d) (map point ps) = map Fin (map fst ps)"
  by (simp add: point_def)

lemma map_y_point: "map (\<lambda>d. y d) (map point ps) = map Fin (map snd ps)"
  by (simp add: point_def)

lemma map_xy_point: "map (\<lambda>d. x d * y d) (map point ps) = map Fin (map (\<lambda>p. fst p * snd p) ps)"
  by (simp add: point_def)

lemma map_xx_point: "map (\<lambda>d. x d * x d) (map point ps) = map Fin (map (\<lambda>p. fst p * fst p) ps)"
  by (simp add: point_def)

lemma map_yy_point: "map (\<lambda>d. y d * y d) (map point ps) = map Fin (map (\<lambda>p. snd p * snd p) ps)"
  by (simp add: point_def)

lemma map_tss_point:
  "map (\<lambda>d. Math_pow2 (y d - Fin m)) (map point ps) = map Fin (map (\<lambda>p. (snd p - m)\<^sup>2) ps)"
  by (simp add: point_def)

lemma map_rss_point:
  "map (\<lambda>d. Math_pow2 (y d - (Fin s * x d + Fin c))) (map point ps)
     = map Fin (map (\<lambda>p. (snd p - (s * fst p + c))\<^sup>2) ps)"
  by (simp add: point_def)

text \<open>The regression on finite points whose x values are not all the same.\<close>

lemma regression_finite:
  assumes "2 \<le> length ps" and "centered_ss (map fst ps) \<noteq> 0"
  defines "n \<equiv> real (length ps)"
  defines "sx \<equiv> sum_list (map fst ps)" and "sy \<equiv> sum_list (map snd ps)"
  defines "s \<equiv> (n * (\<Sum>p\<leftarrow>ps. fst p * snd p) - sx * sy) / (n * (\<Sum>p\<leftarrow>ps. fst p * fst p) - sx * sx)"
  defines "c \<equiv> (sy - s * sx) / n"
  shows "slope (ScatterPlot_calculateLinearRegression (map point ps)) = Fin s"
    and "intercept (ScatterPlot_calculateLinearRegression (map point ps)) = Fin c"
    and "r2 (ScatterPlot_calculateLinearRegression (map point ps))
          = Fin 1 - Fin (\<Sum>p\<leftarrow>ps. (snd p - (s * fst p + c))\<^sup>2) / Fin (\<Sum>p\<leftarrow>ps. (snd p - sy / n)\<^sup>2)"
proof -
  have ne: "map fst ps \<noteq> []" and n0: "n \<noteq> 0" and len: "\<not> length ps < 2"
    using assms(1) by (auto simp: n_def)
  have "n * (\<Sum>p\<leftarrow>ps. fst p * fst p) - sx * sx = n * centered_ss (map fst ps)"
    using variance_identity [OF ne] by (simp add: n_def sx_def comp_def)
  then have D: "n * (\<Sum>p\<leftarrow>ps. fst p * fst p) - sx * sx \<noteq> 0"
    using assms(2) n0 by simp
  have sl: "(Fin n * Fin (\<Sum>p\<leftarrow>ps. fst p * snd p) - Fin sx * Fin sy)
          / (Fin n * Fin (\<Sum>p\<leftarrow>ps. fst p * fst p) - Fin sx * Fin sx) = Fin s"
    using D by (simp add: s_def)
  have ic: "(Fin sy - Fin s * Fin sx) / Fin n = Fin c"
    using n0 by (simp add: c_def)
  have my: "Fin sy / Fin n = Fin (sy / n)"
    using n0 by simp
  have R: "ScatterPlot_calculateLinearRegression (map point ps) =
        \<lparr>slope = Fin s, intercept = Fin c,
         r2 = Fin 1 - Fin (\<Sum>p\<leftarrow>ps. (snd p - (s * fst p + c))\<^sup>2) / Fin (\<Sum>p\<leftarrow>ps. (snd p - sy / n)\<^sup>2)\<rparr>"
    unfolding ScatterPlot_calculateLinearRegression_def Let_def
      map_x_point map_y_point map_xy_point map_xx_point map_yy_point d3_sum_Fin
      length_map n_def [symmetric] sx_def [symmetric] sy_def [symmetric]
      sl ic my map_tss_point map_rss_point
    using len by simp
  show "slope (ScatterPlot_calculateLinearRegression (map point ps)) = Fin s"
    and "intercept (ScatterPlot_calculateLinearRegression (map point ps)) = Fin c"
    and "r2 (ScatterPlot_calculateLinearRegression (map point ps))
          = Fin 1 - Fin (\<Sum>p\<leftarrow>ps. (snd p - (s * fst p + c))\<^sup>2) / Fin (\<Sum>p\<leftarrow>ps. (snd p - sy / n)\<^sup>2)"
    by (simp_all add: R)
qed


text \<open>
  With at least two finite points whose x values are not all the same, the fitted line
  passes through the centroid of the data.
\<close>

lemma regression_centroid:
  assumes "2 \<le> length ps" and "centered_ss (map fst ps) \<noteq> 0"
  shows "\<exists>s c. slope (ScatterPlot_calculateLinearRegression (map point ps)) = Fin s
            \<and> intercept (ScatterPlot_calculateLinearRegression (map point ps)) = Fin c
            \<and> mean (map snd ps) = s * mean (map fst ps) + c"
proof (intro exI conjI)
  let ?n = "real (length ps)"
  let ?sx = "sum_list (map fst ps)" and ?sy = "sum_list (map snd ps)"
  let ?s = "(?n * (\<Sum>p\<leftarrow>ps. fst p * snd p) - ?sx * ?sy) / (?n * (\<Sum>p\<leftarrow>ps. fst p * fst p) - ?sx * ?sx)"
  show "slope (ScatterPlot_calculateLinearRegression (map point ps)) = Fin ?s"
    by (rule regression_finite(1) [OF assms])
  show "intercept (ScatterPlot_calculateLinearRegression (map point ps)) = Fin ((?sy - ?s * ?sx) / ?n)"
    by (rule regression_finite(2) [OF assms])
  have "?n \<noteq> 0" using assms(1) by auto
  then show "mean (map snd ps) = ?s * mean (map fst ps) + (?sy - ?s * ?sx) / ?n"
    by (simp add: mean_def diff_divide_distrib)
qed





text \<open>
  Claim C2 fails on the code: only the sample count is guarded. With all x values
  identical the slope is \<open>0 / 0\<close> and the intercept follows it (the residuals are all
  \<open>NaN\<close>, which \<^verbatim>\<open>d3.sum\<close> skips, so \<open>r2\<close> is 1); with all y values identical
  \<open>r2\<close> is \<open>1 - 0 / 0\<close>.
\<close>

theorem calculateLinearRegression_unguarded:
  "ScatterPlot_calculateLinearRegression [\<lparr>x = Fin 7, y = Fin 6\<rparr>, \<lparr>x = Fin 7, y = Fin 8\<rparr>]
     = \<lparr>slope = NaN, intercept = NaN, r2 = Fin 1\<rparr>
   \<and> ScatterPlot_calculateLinearRegression [\<lparr>x = Fin 6, y = Fin 5\<rparr>, \<lparr>x = Fin 8, y = Fin 5\<rparr>]
     = \<lparr>slope = Fin 0, intercept = Fin 5, r2 = NaN\<rparr>
   \<and> ScatterPlot_calculateLinearRegression [\<lparr>x = Fin 7, y = Fin 6\<rparr>]
     = \<lparr>slope = Fin 0, intercept = Fin 0, r2 = Fin 0\<rparr>"
  by (simp add: ScatterPlot_calculateLinearRegression_def d3_sum_def)

text \<open>
  Claim C9 fails on the code for the same reason: with two samples that share their x
  value the line has no number for slope and intercept, so it does not pass through the
  centroid \<open>(3, 7)\<close>.
\<close>

theorem regression_line_misses_centroid:
  "intercept (ScatterPlot_calculateLinearRegression
                [\<lparr>x = Fin 3, y = Fin 6\<rparr>, \<lparr>x = Fin 3, y = Fin 8\<rparr>]) = NaN
   \<and> slope (ScatterPlot_calculateLinearRegression
                [\<lparr>x = Fin 3, y = Fin 6\<rparr>, \<lparr>x = Fin 3, y = Fin 8\<rparr>]) * Fin (mean [3, 3])
       + intercept (ScatterPlot_calculateLinearRegression
                [\<lparr>x = Fin 3, y = Fin 6\<rparr>, \<lparr>x = Fin 3, y = Fin 8\<rparr>]) = NaN
   \<and> Fin (mean [6, 8]) = Fin 7"
  by (simp add: ScatterPlot_calculateLinearRegression_def d3_sum_def mean_def)

section \<open>Arrays of unequal length (C10)\<close>

text \<open>
  Claim C10, as amended. \<^verbatim>\<open>CorrelationMatrix.calculateCorrelation\<close> uses only the
  first \<open>min (length xs) (length ys)\<close> index pairs: extra trailing elements of the longer
  array never change its result.
\<close>

theorem CorrelationMatrix_calculateCorrelation_append:
  "(length ys \<le> length xs \<longrightarrow>
      CorrelationMatrix_calculateCorrelation (xs @ zs) ys = CorrelationMatrix_calculateCorrelation xs ys)
   \<and> (length xs \<le> length ys \<longrightarrow>
      CorrelationMatrix_calculateCorrelation xs (ys @ zs) = CorrelationMatrix_calculateCorrelation xs ys)"
  unfolding CorrelationMatrix_calculateCorrelation_def zip_take_min
  by (simp add: zip_append1 zip_append2)

theorem CorrelationMatrix_calculateCorrelation_append_witness:
  "length [Fin 1, Fin 2] \<le> length [Fin 1, Fin 2]
   \<and> CorrelationMatrix_calculateCorrelation ([Fin 1, Fin 2] @ [Fin 3]) [Fin 1, Fin 2]
       = CorrelationMatrix_calculateCorrelation [Fin 1, Fin 2] [Fin 1, Fin 2]
   \<and> CorrelationMatrix_calculateCorrelation [Fin 1, Fin 2] ([Fin 1, Fin 2] @ [NaN, PInf])
       = CorrelationMatrix_calculateCorrelation [Fin 1, Fin 2] [Fin 1, Fin 2]"
  using CorrelationMatrix_calculateCorrelation_append [of "[Fin 1, Fin 2]" "[Fin 1, Fin 2]" "[Fin 3]"]
    CorrelationMatrix_calculateCorrelation_append [of "[Fin 1, Fin 2]" "[Fin 1, Fin 2]" "[NaN, PInf]"]
  by simp

text \<open>
  The claim fails for the heatmap's copy: \<^verbatim>\<open>CategoryHeatmap.calculateCorrelation\<close> takes
  the minimum length for its sample check only; its means and its sums of squares run
  over the whole arrays, so a third element of \<^verbatim>\<open>x\<close> halves the result.
\<close>

theorem CategoryHeatmap_calculateCorrelation_trailing:
  "CategoryHeatmap_calculateCorrelation [Fin 1, Fin 2] [Fin 1, Fin 2] = Fin 1
   \<and> CategoryHeatmap_calculateCorrelation [Fin 1, Fin 2, Fin 3] [Fin 1, Fin 2] = Fin (1 / 2)"
  by (simp add: CategoryHeatmap_calculateCorrelation_def d3_sum_def d3_mean_def elem_def
      power2_eq_square real_sqrt_mult [symmetric] upt_rec)

section \<open>Equal-width bins\<close>

lemma foldl_extent_Fin:
  "foldl extent_step (Some (Fin a, Fin b)) (map Fin rs)
     = Some (Fin (Min (insert a (set rs))), Fin (Max (insert b (set rs))))"
proof (induction rs arbitrary: a b)
  case Nil
  then show ?case by simp
next
  case (Cons r rs)
  have step: "extent_step (Some (Fin a, Fin b)) (Fin r) = Some (Fin (min a r), Fin (max b r))"
    by (auto simp: min_def max_def)
  have mn: "Min (insert (min a r) (set rs)) = Min (insert a (insert r (set rs)))"
    by (cases "set rs = {}") (auto simp: min.assoc)
  have mx: "Max (insert (max b r) (set rs)) = Max (insert b (insert r (set rs)))"
    by (cases "set rs = {}") (auto simp: max.assoc)
  show ?case
    by (simp only: list.map foldl_Cons step Cons.IH mn mx list.set)
qed

lemma d3_extent_Fin:
  assumes "rs \<noteq> []"
  shows "d3_extent (map Fin rs) = Some (Fin (Min (set rs)), Fin (Max (set rs)))"
proof -
  obtain r rs' where rs: "rs = r # rs'"
    using assms by (cases rs) auto
  have "extent_step None (Fin r) = Some (Fin r, Fin r)"
    by simp
  then show ?thesis
    unfolding d3_extent_def rs by (simp add: foldl_extent_Fin)
qed

text \<open>The bins of finite values, in real arithmetic.\<close>

lemma createBins_finite:
  assumes "rs \<noteq> []" and "0 < numBins"
  defines "g \<equiv> real_of_int \<lfloor>Min (set rs)\<rfloor>"
  defines "w \<equiv> (real_of_int \<lceil>Max (set rs)\<rceil> - g) / real numBins"
  shows "createBins ToString (map Fin rs) numBins =
           map (\<lambda>i. \<lparr>min' = Fin (g + real i * w), max' = Fin (g + real (i + 1) * w),
                      label = toFixed1 ToString (Fin (g + real i * w)) @ ''-'' @
                              toFixed1 ToString (Fin (g + real (i + 1) * w))\<rparr>)
             [0..<numBins]"
proof -
  have n: "real numBins \<noteq> 0" using assms(2) by simp
  show ?thesis
    unfolding createBins_def d3_extent_Fin [OF assms(1)] Let_def g_def w_def
    using n by simp
qed


lemma processData_counts:
  assumes "category1 \<noteq> []" "category2 \<noteq> []" "data \<noteq> []"
  shows "map count (processData ToString category1 category2 data) =
    (let validData = filter (\<lambda>d. \<not> isNaN (d category1) \<and> \<not> isNaN (d category2)) data
     in concat (map (\<lambda>bin1. map (\<lambda>bin2.
          length (filter (\<lambda>d. d category1 \<ge> min' bin1 \<and> d category1 < max' bin1 \<and>
                              d category2 \<ge> min' bin2 \<and> d category2 < max' bin2) validData))
          (createBins ToString (map (\<lambda>d. d category2) validData) 6))
          (createBins ToString (map (\<lambda>d. d category1) validData) 6)))"
proof -
  have c: "(if ps \<noteq> [] then length ps else 0) = length ps" for ps :: "row list"
    by simp
  show ?thesis
    using assms
    by (simp add: processData_def Let_def map_concat comp_def if_distrib [of count] c cong: if_cong)
qed

subsection \<open>The bins of a field with a range (C4)\<close>

text \<open>
  Claim C4. For a non-empty array of finite values and \<open>numBins > 0\<close>,
  \<^verbatim>\<open>createBins\<close> returns exactly \<open>numBins\<close> bins; with \<open>g\<close> the floor of the minimum,
  the ceiling of the maximum as upper end and \<open>w\<close> their difference divided by
  \<open>numBins\<close>, bin \<open>i\<close> has the bounds \<open>g + i w\<close> and \<open>g + (i + 1) w\<close>, and its label is
  the two bounds written with one decimal and a hyphen between them.
\<close>

theorem createBins_equal_width:
  assumes "rs \<noteq> []" and "0 < numBins"
  defines "g \<equiv> real_of_int \<lfloor>Min (set rs)\<rfloor>"
  defines "w \<equiv> (real_of_int \<lceil>Max (set rs)\<rceil> - g) / real numBins"
  shows "length (createBins ToString (map Fin rs) numBins) = numBins
       \<and> createBins ToString (map Fin rs) numBins =
           map (\<lambda>i. \<lparr>min' = Fin (g + real i * w), max' = Fin (g + real (i + 1) * w),
                      label = toFixed1 ToString (Fin (g + real i * w)) @ ''-'' @
                              toFixed1 ToString (Fin (g + real (i + 1) * w))\<rparr>)
             [0..<numBins]"
  unfolding g_def w_def createBins_finite [OF assms(1,2)] by simp

theorem createBins_equal_width_witness:
  "[4, 5, 6, 7, 8, 9, 10 :: real] \<noteq> [] \<and> (0 :: nat) < 4
   \<and> createBins (\<lambda>r. ''1e+21'') [Fin 4, Fin 5, Fin 6, Fin 7, Fin 8, Fin 9, Fin 10] 4 =
       [\<lparr>min' = Fin 4, max' = Fin (11 / 2), label = ''4.0-5.5''\<rparr>,
        \<lparr>min' = Fin (11 / 2), max' = Fin 7, label = ''5.5-7.0''\<rparr>,
        \<lparr>min' = Fin 7, max' = Fin (17 / 2), label = ''7.0-8.5''\<rparr>,
        \<lparr>min' = Fin (17 / 2), max' = Fin 10, label = ''8.5-10.0''\<rparr>]"
  using createBins_equal_width
      [where rs = "[4, 5, 6, 7, 8, 9, 10]" and numBins = 4 and ToString = "\<lambda>r. ''1e+21''"]
  by (simp add: digit_def upt_rec)

subsection \<open>The maximum of a field (C3)\<close>

text \<open>
  Claim C3 fails on the code: \<^verbatim>\<open>processData\<close> tests every bin, the last one too, with
  \<^verbatim>\<open>val >= bin.min && val < bin.max\<close>, so a row whose value is the maximum of its field
  is in no bin when that maximum is a whole number. Of the two rows below one is counted;
  and with the four bins of \<open>[4, 5, 6, 7, 8, 9, 10]\<close> the value 10 is in none.
\<close>

theorem maximum_value_dropped:
  "sum_list (map count (processData (\<lambda>r. ''1e+21'') ''Stress Level'' ''Quality of Sleep''
     [csv_row [(''Stress Level'', Fin 3), (''Quality of Sleep'', Fin 4)],
      csv_row [(''Stress Level'', Fin 8), (''Quality of Sleep'', Fin 9)]])) = 1
   \<and> length (filter (\<lambda>d. \<not> isNaN (d ''Stress Level'') \<and> \<not> isNaN (d ''Quality of Sleep''))
     [csv_row [(''Stress Level'', Fin 3), (''Quality of Sleep'', Fin 4)],
      csv_row [(''Stress Level'', Fin 8), (''Quality of Sleep'', Fin 9)]]) = 2
   \<and> list_all (\<lambda>b. \<not> (Fin 10 \<ge> min' b \<and> Fin 10 < max' b))
        (createBins (\<lambda>r. ''1e+21'') [Fin 4, Fin 5, Fin 6, Fin 7, Fin 8, Fin 9, Fin 10] 4)"
  by (simp add: processData_counts createBins_def d3_extent_def csv_row_def Let_def upt_rec)

subsection \<open>Fields without a range (C5)\<close>




section \<open>The scenario of the specification\<close>

text \<open>
  Six records with sleep durations \<open>6, 7, 8, 6, 7, 8\<close> and sleep qualities
  \<open>5, 6, 7, 5, 6, 7\<close>: the correlation is 1 and the line has slope 1 and intercept
  \<open>-1\<close>; and the correlation of fewer than two samples is 0.
\<close>

lemma sleep_scenario:
  "ScatterPlot_calculateCorrelation
     (map point [(6, 5), (7, 6), (8, 7), (6, 5), (7, 6), (8, 7)]) = Fin 1
   \<and> ScatterPlot_calculateLinearRegression
     (map point [(6, 5), (7, 6), (8, 7), (6, 5), (7, 6), (8, 7)])
     = \<lparr>slope = Fin 1, intercept = Fin (- 1), r2 = Fin 1\<rparr>
   \<and> CorrelationMatrix_calculateCorrelation [] [] = Fin 0
   \<and> CorrelationMatrix_calculateCorrelation [Fin 1] [Fin 2] = Fin 0"
  by (simp add: ScatterPlot_calculateCorrelation_def ScatterPlot_calculateLinearRegression_def
      CorrelationMatrix_calculateCorrelation_def point_def d3_sum_def d3_mean_def Let_def)

end
